theory Spec2Isabelle
  imports Main "HOL-Library.AList"
begin

section \<open>Strings\<close>

text \<open>
  Python strings are modelled as \<open>string\<close>. \<open>str.lower\<close> is modelled on the ASCII
  letters (symbols and stream keys are ASCII); every other character is left as it is.
\<close>

definition lower_char :: "char \<Rightarrow> char" where
  "lower_char c =
     (if (65::nat) \<le> of_char c \<and> of_char c \<le> (90::nat)
      then char_of (of_char c + (32::nat)) else c)"

definition lower :: "string \<Rightarrow> string" where
  "lower s = map lower_char s"

text \<open>\<open>str(n)\<close> of a non-negative integer, as it appears in an f-string.\<close>

definition digit_char :: "nat \<Rightarrow> char" where
  "digit_char d = char_of (48 + d)"

function str_nat :: "nat \<Rightarrow> string" where
  "str_nat n = (if n < 10 then [digit_char n] else str_nat (n div 10) @ [digit_char (n mod 10)])"
  by pat_completeness auto
termination
  by (relation "measure (\<lambda>n. n)") auto

declare str_nat.simps [simp del]

text \<open>\<open>s.endswith(suf)\<close>.\<close>

definition endswith :: "string \<Rightarrow> string \<Rightarrow> bool" where
  "endswith s suf = (length suf \<le> length s \<and> drop (length s - length suf) s = suf)"

text \<open>
  \<open>s.rsplit('_', 1)\<close>: the text before and after the last underscore, or \<open>None\<close>
  when there is no underscore (the split has one part only).
\<close>

definition rsplit1 :: "string \<Rightarrow> (string \<times> string) option" where
  "rsplit1 s =
     (if CHR ''_'' \<in> set s
      then Some (rev (tl (dropWhile (\<lambda>c. c \<noteq> CHR ''_'') (rev s))),
                 rev (takeWhile (\<lambda>c. c \<noteq> CHR ''_'') (rev s)))
      else None)"

text \<open>
  \<open>a, b, c = s.rsplit('_', 2)\<close>: the unpacking raises \<open>ValueError\<close> (here \<open>None\<close>)
  unless the string has two underscores at least.
\<close>

definition rsplit2 :: "string \<Rightarrow> (string \<times> string \<times> string) option" where
  "rsplit2 s =
     (case rsplit1 s of
        None \<Rightarrow> None
      | Some (rest, c) \<Rightarrow>
          (case rsplit1 rest of
             None \<Rightarrow> None
           | Some (a, b) \<Rightarrow> Some (a, b, c)))"

section \<open>Configuration\<close>

definition BATCH_SIZE_FOR_COLUMNAR :: nat where
  "BATCH_SIZE_FOR_COLUMNAR = 10000"

definition FILE_ROTATION_LINE_COUNT :: nat where
  "FILE_ROTATION_LINE_COUNT = 100000"

text \<open>
  The fields of \<open>args\<close> the pipeline reads. \<open>outputs\<close> is \<open>args.output\<close>, the set of formats, in the order
  the \<open>for\<close> loop visits it; the empty list stands for both \<open>None\<close> and the empty set,
  which \<open>if args.output\<close> does not tell apart. \<open>samples\<close> is \<open>None\<close> when the option
  is not given.
\<close>

record args =
  output_dir :: string
  outputs :: "string list"
  samples :: "int option"
  print :: bool
  print_only :: bool
  silent :: bool

section \<open>Payloads\<close>

text \<open>
  A decoded message. A float is kept as its literal: no arithmetic is done on payloads.
  A \<open>JObj\<close> holds the items of the Python dict, in insertion order, keys distinct.
\<close>

datatype json =
    JNull
  | JBool bool
  | JInt int
  | JFloat string
  | JStr string
  | JArr "json list"
  | JObj "(string \<times> json) list"

type_synonym payload = "(string \<times> json) list"

text \<open>\<open>d.get(k)\<close>: \<open>None\<close> (here \<open>JNull\<close>) for a missing key.\<close>

definition dict_get :: "payload \<Rightarrow> string \<Rightarrow> json" where
  "dict_get d k = (case map_of d k of None \<Rightarrow> JNull | Some v \<Rightarrow> v)"

datatype error =
    KeyError string
  | ValueError
  | AttributeError
  | JSONDecodeError
  | OSError string
  | StoreError
  | BrokenPipeError
  | ConnectionRefused
  | ConnectionClosed
  | CancelledError

text \<open>
  \<open>process_trade_payload\<close>. \<open>data.get\<close> raises \<open>AttributeError\<close> when the decoded
  message is not a dict. Python's \<open>str\<close> is a parameter.
\<close>

definition process_trade_payload :: "(json \<Rightarrow> string) \<Rightarrow> json \<Rightarrow> error + payload" where
  "process_trade_payload py_str data =
     (case data of
        JObj d \<Rightarrow>
          Inr [(''event_time'', dict_get d ''E''), (''price'', dict_get d ''p''),
               (''quantity'', dict_get d ''q''), (''trade_time'', dict_get d ''T''),
               (''is_buyer_maker'', JStr (py_str (dict_get d ''m'')))]
      | _ \<Rightarrow> Inl AttributeError)"

section \<open>The state of the file writers and of the outside world\<close>

text \<open>
  A WriterState is a Python dict with the optional keys \<open>buffer\<close>, \<open>part\<close>, \<open>handle\<close>,
  \<open>lines\<close>, \<open>writer\<close> and \<open>header\<close>; a field is \<open>None\<close> when the key is missing.
  \<open>handle\<close> names the open file; it is \<open>None\<close> too when the key holds \<open>None\<close>, since
  the code only tests it for truth. \<open>writer\<close> names the file the csv writer is bound to.
  The counters start at zero and are only ever incremented, so they are naturals.
\<close>

record writer_state =
  buffer :: "payload list option"
  part :: "nat option"
  handle :: "string option"
  lines :: "nat option"
  writer :: "string option"
  header :: "string list option"

definition empty_state :: writer_state where
  "empty_state = \<lparr>buffer = None, part = None, handle = None, lines = None,
                   writer = None, header = None\<rparr>"

text \<open>
  A line of a line-format file, before rendering: the record handed to \<open>json.dumps\<close>, or
  the row handed to \<open>csv.writer.writerow\<close>.
\<close>

datatype line = JsonLine payload | CsvRow "json list"

type_synonym tuple = "string \<times> string \<times> payload"

datatype log_msg =
    Rotated string
  | WroteBatch string
  | WriteFailed string
  | PipeClosed
  | CleanupStart
  | CleanupDone
  | ShutdownStart
  | ShutdownComplete

text \<open>
  What happens, in order: the calls to \<open>logging\<close>, to \<open>print\<close>, to \<open>open\<close>, to
  \<open>to_parquet\<close>/\<open>to_orc\<close>, to \<open>task_done\<close>, and the steps of the shutdown.
\<close>

datatype event =
    Log log_msg
  | Printed tuple
  | Opened string
  | TableWrite string
  | TaskDone tuple
  | CancelAllOtherTasks
  | CancelProducers
  | QueueJoined
  | CancelConsumer
  | ConsumerEnded
  | FlushAll

text \<open>
  \<open>writers\<close> is the dict \<open>file_writers\<close> (items in insertion order); \<open>files\<close> are the
  line-format files, \<open>tables\<close> the columnar ones (their extensions keep them apart);
  \<open>store\<close> is the sequence of appends to the message-stream store.
\<close>

record world =
  writers :: "(string \<times> writer_state) list"
  files :: "(string \<times> line list) list"
  tables :: "(string \<times> payload list) list"
  store :: "(string \<times> payload) list"
  trace :: "event list"

definition init_world :: world where
  "init_world = \<lparr>writers = [], files = [], tables = [], store = [], trace = []\<rparr>"

text \<open>
  The calls that can fail, each with the world it is made in: \<open>print\<close> (the pipe is
  closed), \<open>xadd\<close>, \<open>open\<close>, the write and flush of a line, and the columnar write.
\<close>

record env =
  print_fails :: "world \<Rightarrow> tuple \<Rightarrow> bool"
  xadd_fails :: "world \<Rightarrow> string \<Rightarrow> payload \<Rightarrow> bool"
  open_fails :: "world \<Rightarrow> string \<Rightarrow> bool"
  write_fails :: "world \<Rightarrow> string \<Rightarrow> line \<Rightarrow> bool"
  columnar_fails :: "world \<Rightarrow> string \<Rightarrow> payload list \<Rightarrow> bool"

definition reliable_env :: env where
  "reliable_env = \<lparr>print_fails = (\<lambda>_ _. False), xadd_fails = (\<lambda>_ _ _. False),
                    open_fails = (\<lambda>_ _. False), write_fails = (\<lambda>_ _ _. False),
                    columnar_fails = (\<lambda>_ _ _. False)\<rparr>"

definition emit :: "event \<Rightarrow> world \<Rightarrow> world" where
  "emit e w = w\<lparr>trace := trace w @ [e]\<rparr>"

definition file_lines :: "world \<Rightarrow> string \<Rightarrow> line list" where
  "file_lines w f = (case map_of (files w) f of None \<Rightarrow> [] | Some ls \<Rightarrow> ls)"

text \<open>\<open>open(filename, 'a')\<close> creates the file when it is not there and keeps what it holds.\<close>

definition open_append :: "string \<Rightarrow> world \<Rightarrow> world" where
  "open_append f w = emit (Opened f) (w\<lparr>files := AList.update f (file_lines w f) (files w)\<rparr>)"

definition append_line :: "string \<Rightarrow> line \<Rightarrow> world \<Rightarrow> world" where
  "append_line f l w = w\<lparr>files := AList.update f (file_lines w f @ [l]) (files w)\<rparr>"

section \<open>The file writer subsystem\<close>

definition writer_key_of :: "string \<Rightarrow> string \<Rightarrow> string \<Rightarrow> string" where
  "writer_key_of stream_key symbol fmt = stream_key @ ''_'' @ lower symbol @ ''_'' @ fmt"

definition part_filename :: "args \<Rightarrow> string \<Rightarrow> string \<Rightarrow> nat \<Rightarrow> string \<Rightarrow> string" where
  "part_filename a stream_key symbol p ext =
     output_dir a @ ''/'' @ stream_key @ ''_'' @ lower symbol @ ''_'' @ str_nat p @ ''.'' @ ext"

text \<open>
  \<open>flush_buffer\<close>. The state is cleared and the part allocated before the write is
  tried; a failing write is logged and swallowed. A format other than parquet and orc
  writes nothing and logs the batch as written, as the \<open>if\<close>/\<open>elif\<close> does.
\<close>

definition flush_buffer ::
  "env \<Rightarrow> args \<Rightarrow> writer_state \<Rightarrow> string \<Rightarrow> string \<Rightarrow> string \<Rightarrow> world
     \<Rightarrow> error + (writer_state \<times> world)" where
  "flush_buffer ev a state stream_key symbol fmt w =
     (case buffer state of
        None \<Rightarrow> Inr (state, w)
      | Some [] \<Rightarrow> Inr (state, w)
      | Some (r # rs) \<Rightarrow>
          (case part state of
             None \<Rightarrow> Inl (KeyError ''part'')
           | Some p \<Rightarrow>
               (let state' = state\<lparr>buffer := Some [], part := Some (p + 1)\<rparr>;
                    filename = part_filename a stream_key symbol (p + 1) fmt
                in if fmt = ''parquet'' \<or> fmt = ''orc'' then
                     (if columnar_fails ev w filename (r # rs)
                      then Inr (state', emit (Log (WriteFailed filename))
                                          (emit (TableWrite filename) w))
                      else Inr (state', emit (Log (WroteBatch filename))
                                          (emit (TableWrite filename)
                                             (w\<lparr>tables := AList.update filename (r # rs) (tables w)\<rparr>))))
                   else Inr (state', emit (Log (WroteBatch filename)) w))))"

text \<open>The block of \<open>write_to_file\<close> that opens a new part when no handle is open.\<close>

definition open_part ::
  "env \<Rightarrow> args \<Rightarrow> writer_state \<Rightarrow> string \<Rightarrow> string \<Rightarrow> payload \<Rightarrow> string \<Rightarrow> world
     \<Rightarrow> error + (writer_state \<times> world)" where
  "open_part ev a state stream_key symbol payload fmt w =
     (case handle state of
        Some h \<Rightarrow> Inr (state, w)
      | None \<Rightarrow>
          (let p = (case part state of None \<Rightarrow> 0 | Some p \<Rightarrow> p) + 1;
               filename = part_filename a stream_key symbol p
                            (if fmt = ''csv'' then fmt else ''jsonl'')
           in if open_fails ev w filename then Inl (OSError filename)
              else
                (let w1 = open_append filename w;
                     state1 = state\<lparr>part := Some p, handle := Some filename, lines := Some 0\<rparr>
                 in if fmt = ''csv'' then
                      (let hdr = map fst payload;
                           row = CsvRow (map JStr hdr)
                       in if write_fails ev w1 filename row then Inl (OSError filename)
                          else Inr (state1\<lparr>writer := Some filename, header := Some hdr,
                                            lines := Some 1\<rparr>,
                                    append_line filename row w1))
                    else Inr (state1, w1))))"

text \<open>The record's line: \<open>json.dumps(payload)\<close>, or the row read off the header.\<close>

definition write_line ::
  "env \<Rightarrow> writer_state \<Rightarrow> payload \<Rightarrow> string \<Rightarrow> world \<Rightarrow> error + world" where
  "write_line ev state payload fmt w =
     (case handle state of
        None \<Rightarrow> Inl (KeyError ''handle'')
      | Some h \<Rightarrow>
          (if fmt = ''json'' then
             (if write_fails ev w h (JsonLine payload) then Inl (OSError h)
              else Inr (append_line h (JsonLine payload) w))
           else
             (case writer state of
                None \<Rightarrow> Inl (KeyError ''writer'')
              | Some f \<Rightarrow>
                  (case header state of
                     None \<Rightarrow> Inl (KeyError ''header'')
                   | Some hdr \<Rightarrow>
                       (let row = CsvRow (map (dict_get payload) hdr)
                        in if write_fails ev w f row then Inl (OSError f)
                           else Inr (append_line f row w))))))"

text \<open>The count of the line and the rotation at the threshold.\<close>

definition count_line :: "writer_state \<Rightarrow> string \<Rightarrow> world \<Rightarrow> error + (writer_state \<times> world)" where
  "count_line state writer_key w =
     (case lines state of
        None \<Rightarrow> Inl (KeyError ''lines'')
      | Some n \<Rightarrow>
          (if n + 1 \<ge> FILE_ROTATION_LINE_COUNT
           then Inr (state\<lparr>lines := Some (n + 1), handle := None, writer := None\<rparr>,
                     emit (Log (Rotated writer_key)) w)
           else Inr (state\<lparr>lines := Some (n + 1)\<rparr>, w)))"

text \<open>
  \<open>write_to_file\<close>. A call that raises leaves the dispatcher dead (see
  \<open>data_consumer\<close>), so nothing reads the writers after it: the result of a raising call
  is the error alone.
\<close>

definition write_to_file ::
  "env \<Rightarrow> args \<Rightarrow> string \<Rightarrow> string \<Rightarrow> payload \<Rightarrow> string \<Rightarrow> world \<Rightarrow> error + world" where
  "write_to_file ev a stream_key symbol payload fmt w =
     (let writer_key = writer_key_of stream_key symbol fmt;
          state = (case map_of (writers w) writer_key of None \<Rightarrow> empty_state | Some s \<Rightarrow> s)
      in if fmt = ''parquet'' \<or> fmt = ''orc'' then
           (let (buf, state1) =
                  (case buffer state of
                     None \<Rightarrow> ([], state\<lparr>buffer := Some [], part := Some 0\<rparr>)
                   | Some b \<Rightarrow> (b, state));
                state2 = state1\<lparr>buffer := Some (buf @ [payload])\<rparr>
            in if length (buf @ [payload]) \<ge> BATCH_SIZE_FOR_COLUMNAR then
                 (case flush_buffer ev a state2 stream_key symbol fmt w of
                    Inl e \<Rightarrow> Inl e
                  | Inr (state3, w1) \<Rightarrow>
                      Inr (w1\<lparr>writers := AList.update writer_key state3 (writers w1)\<rparr>))
               else Inr (w\<lparr>writers := AList.update writer_key state2 (writers w)\<rparr>))
         else if fmt = ''json'' \<or> fmt = ''csv'' then
           (case open_part ev a state stream_key symbol payload fmt w of
              Inl e \<Rightarrow> Inl e
            | Inr (state1, w1) \<Rightarrow>
                (case write_line ev state1 payload fmt w1 of
                   Inl e \<Rightarrow> Inl e
                 | Inr w2 \<Rightarrow>
                     (case count_line state1 writer_key w2 of
                        Inl e \<Rightarrow> Inl e
                      | Inr (state2, w3) \<Rightarrow>
                          Inr (w3\<lparr>writers := AList.update writer_key state2 (writers w3)\<rparr>))))
         else Inr (w\<lparr>writers := AList.update writer_key state (writers w)\<rparr>))"

text \<open>
  \<open>flush_all_buffers\<close>. The loop visits the items of \<open>file_writers\<close>; a state is
  changed in place, which is an update of the dict at its key. The unpacking of
  \<open>rsplit\<close> raises \<open>ValueError\<close> for a key with fewer than two underscores.
\<close>

fun flush_entries ::
  "env \<Rightarrow> args \<Rightarrow> (string \<times> writer_state) list \<Rightarrow> world \<Rightarrow> error + world" where
  "flush_entries ev a [] w = Inr w"
| "flush_entries ev a ((writer_key, state) # rest) w =
     (if endswith writer_key ''parquet'' \<or> endswith writer_key ''orc'' then
        (case rsplit2 writer_key of
           None \<Rightarrow> Inl ValueError
         | Some (stream_key, symbol, fmt) \<Rightarrow>
             (case flush_buffer ev a state stream_key symbol fmt w of
                Inl e \<Rightarrow> Inl e
              | Inr (state', w1) \<Rightarrow>
                  flush_entries ev a rest
                    (w1\<lparr>writers := AList.update writer_key state' (writers w1)\<rparr>)))
      else flush_entries ev a rest w)"

definition flush_all_buffers :: "env \<Rightarrow> args \<Rightarrow> world \<Rightarrow> error + world" where
  "flush_all_buffers ev a w =
     (case flush_entries ev a (writers w) (emit (Log CleanupStart) (emit FlushAll w)) of
        Inl e \<Rightarrow> Inl e
      | Inr w1 \<Rightarrow> Inr (emit (Log CleanupDone) w1))"

section \<open>The sink dispatcher\<close>






section \<open>The shutdown sequence\<close>




section \<open>The feed producer\<close>

text \<open>
  The feed, as the producer meets it: each attempt to connect is refused, or gives a
  connection that delivers messages and then closes normally (the \<open>async for\<close> ends),
  closes with an error (\<open>ConnectionClosed\<close> is raised), or is still open when the task
  is cancelled. A feed with no attempt left stands for a task cancelled while it waits.
\<close>

datatype conn_end = ClosedOK | ClosedError | Cancelled

datatype connection = Refused | Established "string list" conn_end

datatype producer_msg = Starting string | Connected | SampleLimit int | ProducerError error

datatype action = Connect string | PLog producer_msg | Put tuple | Sleep nat

datatype loop_end = Returned | Raised error | Exhausted

datatype producer_end = Done | TaskCancelled

text \<open>
  The loop \<open>async for message in websocket\<close>, from \<open>sample_count = n\<close>: the actions, the
  new \<open>sample_count\<close> and how the loop ends. \<open>loads\<close> is \<open>json.loads\<close> (\<open>None\<close> when it
  raises) and \<open>process_func\<close> the projector, both parameters of the producer.
  \<open>if args.samples\<close> holds when the option is given and is not zero.
\<close>

fun receive_loop ::
  "(string \<Rightarrow> json option) \<Rightarrow> (json \<Rightarrow> error + payload) \<Rightarrow> string \<Rightarrow> string \<Rightarrow> args
     \<Rightarrow> int \<Rightarrow> string list \<Rightarrow> action list \<times> int \<times> loop_end" where
  "receive_loop loads process_func stream_key symbol a n [] = ([], n, Exhausted)"
| "receive_loop loads process_func stream_key symbol a n (message # ms) =
     (case loads message of
        None \<Rightarrow> ([], n, Raised JSONDecodeError)
      | Some data \<Rightarrow>
          (case process_func data of
             Inl e \<Rightarrow> ([], n, Raised e)
           | Inr payload \<Rightarrow>
               (case samples a of
                  None \<Rightarrow>
                    (case receive_loop loads process_func stream_key symbol a n ms of
                       (acts, n', e) \<Rightarrow> (Put (stream_key, symbol, payload) # acts, n', e))
                | Some k \<Rightarrow>
                    (if k \<noteq> 0 then
                       (if n + 1 \<ge> k
                        then ([Put (stream_key, symbol, payload), PLog (SampleLimit k)],
                              n + 1, Returned)
                        else (case receive_loop loads process_func stream_key symbol a (n + 1) ms of
                                (acts, n', e) \<Rightarrow>
                                  (Put (stream_key, symbol, payload) # acts, n', e)))
                     else (case receive_loop loads process_func stream_key symbol a n ms of
                             (acts, n', e) \<Rightarrow>
                               (Put (stream_key, symbol, payload) # acts, n', e))))))"

text \<open>The loop \<open>while True\<close> over the attempts to connect.\<close>

fun producer_loop ::
  "(string \<Rightarrow> json option) \<Rightarrow> (json \<Rightarrow> error + payload) \<Rightarrow> string \<Rightarrow> string \<Rightarrow> string
     \<Rightarrow> args \<Rightarrow> int \<Rightarrow> connection list \<Rightarrow> action list \<times> producer_end" where
  "producer_loop loads process_func websocket_url stream_key symbol a n [] = ([], TaskCancelled)"
| "producer_loop loads process_func websocket_url stream_key symbol a n (Refused # cs) =
     (case producer_loop loads process_func websocket_url stream_key symbol a n cs of
        (acts, e) \<Rightarrow>
          (Connect websocket_url # PLog (ProducerError ConnectionRefused) # Sleep 5 # acts, e))"
| "producer_loop loads process_func websocket_url stream_key symbol a n (Established ms ce # cs) =
     (case receive_loop loads process_func stream_key symbol a n ms of
        (acts, n', Returned) \<Rightarrow> (Connect websocket_url # PLog Connected # acts, Done)
      | (acts, n', Raised e) \<Rightarrow>
          (case producer_loop loads process_func websocket_url stream_key symbol a n' cs of
             (acts', e') \<Rightarrow>
               (Connect websocket_url # PLog Connected # acts
                  @ [PLog (ProducerError e), Sleep 5] @ acts', e'))
      | (acts, n', Exhausted) \<Rightarrow>
          (case ce of
             ClosedOK \<Rightarrow>
               (case producer_loop loads process_func websocket_url stream_key symbol a n' cs of
                  (acts', e') \<Rightarrow> (Connect websocket_url # PLog Connected # acts @ acts', e'))
           | ClosedError \<Rightarrow>
               (case producer_loop loads process_func websocket_url stream_key symbol a n' cs of
                  (acts', e') \<Rightarrow>
                    (Connect websocket_url # PLog Connected # acts
                       @ [PLog (ProducerError ConnectionClosed), Sleep 5] @ acts', e'))
           | Cancelled \<Rightarrow> (Connect websocket_url # PLog Connected # acts, TaskCancelled)))"



section \<open>Sequences of operations\<close>

text \<open>
  A writer that receives a sequence of records: the calls \<open>write_to_file\<close> gets from the
  dispatcher for one feed and one format, in order, up to the first one that raises.
\<close>

fun write_records ::
  "env \<Rightarrow> args \<Rightarrow> string \<Rightarrow> string \<Rightarrow> string \<Rightarrow> payload list \<Rightarrow> world \<Rightarrow> error + world" where
  "write_records ev a stream_key symbol fmt [] w = Inr w"
| "write_records ev a stream_key symbol fmt (payload # ps) w =
     (case write_to_file ev a stream_key symbol payload fmt w of
        Inl e \<Rightarrow> Inl e
      | Inr w1 \<Rightarrow> write_records ev a stream_key symbol fmt ps w1)"

text \<open>Any sequence of calls to the file writer subsystem.\<close>

datatype file_op = Write string string payload string | FlushAllBuffers

fun apply_op :: "env \<Rightarrow> args \<Rightarrow> file_op \<Rightarrow> world \<Rightarrow> error + world" where
  "apply_op ev a (Write stream_key symbol payload fmt) w =
     write_to_file ev a stream_key symbol payload fmt w"
| "apply_op ev a FlushAllBuffers w = flush_all_buffers ev a w"

fun apply_ops :: "env \<Rightarrow> args \<Rightarrow> file_op list \<Rightarrow> world \<Rightarrow> error + world" where
  "apply_ops ev a [] w = Inr w"
| "apply_ops ev a (op # ops) w =
     (case apply_op ev a op w of
        Inl e \<Rightarrow> Inl e
      | Inr w1 \<Rightarrow> apply_ops ev a ops w1)"

text \<open>The state of a writer, its part counter (zero before the first part) and its buffer.\<close>

definition state_of :: "world \<Rightarrow> string \<Rightarrow> writer_state" where
  "state_of w writer_key =
     (case map_of (writers w) writer_key of None \<Rightarrow> empty_state | Some s \<Rightarrow> s)"

definition part_of :: "world \<Rightarrow> string \<Rightarrow> nat" where
  "part_of w writer_key = (case part (state_of w writer_key) of None \<Rightarrow> 0 | Some p \<Rightarrow> p)"

text \<open>The paths of the part files allocated so far: every \<open>open\<close> and every columnar write.\<close>

fun allocations :: "event list \<Rightarrow> string list" where
  "allocations [] = []"
| "allocations (Opened f # es) = f # allocations es"
| "allocations (TableWrite f # es) = f # allocations es"
| "allocations (_ # es) = allocations es"

text \<open>The tuples marked done, in order.\<close>

fun dispatched :: "event list \<Rightarrow> tuple list" where
  "dispatched [] = []"
| "dispatched (TaskDone t # es) = t # dispatched es"
| "dispatched (_ # es) = dispatched es"

text \<open>No call of the file writer subsystem fails.\<close>

definition files_reliable :: "env \<Rightarrow> bool" where
  "files_reliable ev =
     ((\<forall>w f. \<not> open_fails ev w f) \<and> (\<forall>w f l. \<not> write_fails ev w f l)
      \<and> (\<forall>w f rs. \<not> columnar_fails ev w f rs))"

section \<open>Example inputs\<close>

definition example_args :: args where
  "example_args = \<lparr>output_dir = ''data'', outputs = [''json''], samples = None,
                    print = False, print_only = False, silent = False\<rparr>"

definition example_payload :: payload where
  "example_payload = [(''event_time'', JInt 1), (''price'', JStr ''42.5'')]"

definition other_payload :: payload where
  "other_payload = [(''price'', JStr ''43.0''), (''quantity'', JStr ''7'')]"

text \<open>An environment in which every columnar write fails, and one without a store.\<close>

definition columnar_failing_env :: env where
  "columnar_failing_env = reliable_env\<lparr>columnar_fails := (\<lambda>_ _ _. True)\<rparr>"



text \<open>
  A decoder for the examples: the text \<open>not json\<close> does not decode, any other message is
  a trade with the fields \<open>E\<close>, \<open>p\<close>, \<open>q\<close>, \<open>T\<close> and \<open>m\<close>; and a rendering of values for
  the examples.
\<close>

definition example_loads :: "string \<Rightarrow> json option" where
  "example_loads message =
     (if message = ''not json'' then None
      else Some (JObj [(''E'', JInt 1700000000000), (''p'', JStr message), (''q'', JStr ''0.5''),
                       (''T'', JInt 1700000000001), (''m'', JBool True)]))"

definition example_str :: "json \<Rightarrow> string" where
  "example_str v = (case v of JBool True \<Rightarrow> ''True'' | JBool False \<Rightarrow> ''False'' | _ \<Rightarrow> ''None'')"

lemma map_of_update_same: "map_of (AList.update k v al) k = Some v"
  by (simp add: AList.update_conv')

lemma state_of_update_same [simp]:
  "state_of (w\<lparr>writers := AList.update k s ws\<rparr>) k = s"
  by (simp add: state_of_def map_of_update_same)

lemma state_of_fields [simp]:
  "state_of (w\<lparr>trace := t\<rparr>) k = state_of w k"
  "state_of (w\<lparr>tables := tb\<rparr>) k = state_of w k"
  "state_of (w\<lparr>files := fs\<rparr>) k = state_of w k"
  "state_of (w\<lparr>store := st\<rparr>) k = state_of w k"
  by (simp_all add: state_of_def)

lemma write_to_file_state:
  "(case map_of (writers w) k of None \<Rightarrow> empty_state | Some s \<Rightarrow> s) = state_of w k"
  by (simp add: state_of_def)






lemma lower_char_idem: "lower_char (lower_char c) = lower_char c"
  by (simp add: lower_char_def)

lemma lower_idem: "lower (lower s) = lower s"
  by (simp add: lower_def lower_char_idem)








lemma write_records_append:
  "write_records ev a stream_key symbol fmt (xs @ ys) w =
     (case write_records ev a stream_key symbol fmt xs w of
        Inl e \<Rightarrow> Inl e
      | Inr w1 \<Rightarrow> write_records ev a stream_key symbol fmt ys w1)"
  by (induction xs arbitrary: w) (auto split: sum.splits)


lemma write_records_single:
  "write_records ev a stream_key symbol fmt [r] w = write_to_file ev a stream_key symbol r fmt w"
  by (simp split: sum.split)


lemma of_char_digit: "d < 10 \<Longrightarrow> (of_char (digit_char d) :: nat) = 48 + d"
  by (simp add: digit_char_def)

lemma str_nat_value:
  "foldl (\<lambda>v c. 10 * v + (of_char c - 48)) 0 (str_nat n) = n"
proof (induction n rule: str_nat.induct)
  case (1 n)
  show ?case
  proof (cases "n < 10")
    case True
    then show ?thesis
      by (subst str_nat.simps) (simp add: of_char_digit)
  next
    case False
    then have "foldl (\<lambda>v c. 10 * v + (of_char c - 48)) 0 (str_nat (n div 10)) = n div 10"
      using "1.IH" by simp
    then show ?thesis
      using False by (subst str_nat.simps) (simp add: of_char_digit)
  qed
qed

lemma str_nat_inj: "str_nat m = str_nat n \<longleftrightarrow> m = n"
  by (metis str_nat_value)

lemma str_nat_digits: "c \<in> set (str_nat n) \<Longrightarrow> \<exists>d<10. c = digit_char d"
proof (induction n rule: str_nat.induct)
  case (1 n)
  show ?case
  proof (cases "n < 10")
    case True
    with "1.prems" show ?thesis
      by (subst (asm) str_nat.simps) auto
  next
    case False
    with "1.prems" have "c \<in> set (str_nat (n div 10)) \<or> c = digit_char (n mod 10)"
      by (subst (asm) str_nat.simps) auto
    then show ?thesis
    proof
      assume "c \<in> set (str_nat (n div 10))"
      with "1.IH" False show ?thesis by simp
    next
      assume "c = digit_char (n mod 10)"
      moreover have "n mod 10 < 10" by simp
      ultimately show ?thesis by blast
    qed
  qed
qed

lemma digit_char_not_sep: "d < 10 \<Longrightarrow> digit_char d \<noteq> CHR ''_'' \<and> digit_char d \<noteq> CHR ''.''"
proof -
  assume d: "d < 10"
  have "(of_char (digit_char d) :: nat) \<noteq> of_char (CHR ''_'')"
    and "(of_char (digit_char d) :: nat) \<noteq> of_char (CHR ''.'')"
    using d by (simp_all add: of_char_digit)
  then show ?thesis by auto
qed

lemma str_nat_no_sep: "CHR ''_'' \<notin> set (str_nat n) \<and> CHR ''.'' \<notin> set (str_nat n)"
proof -
  have "c \<noteq> CHR ''_'' \<and> c \<noteq> CHR ''.''" if "c \<in> set (str_nat n)" for c
  proof -
    from that obtain d where "d < 10" and "c = digit_char d"
      using str_nat_digits by blast
    then show ?thesis using digit_char_not_sep by simp
  qed
  then show ?thesis by blast
qed

lemma part_filename_inj:
  "part_filename a stream_key symbol p ext = part_filename a stream_key symbol q ext \<longleftrightarrow> p = q"
  by (simp add: part_filename_def str_nat_inj)

text \<open>
  Claim C7. When the columnar write of a flush fails, \<open>flush_buffer\<close> returns normally
  (ingestion goes on), having logged the failure; the buffer was cleared and the part
  number allocated before the write was tried, so the state holds an empty buffer and
  the batch is in no table: its records are lost.
\<close>

theorem flush_failure_loses_batch:
  assumes "fmt = ''parquet'' \<or> fmt = ''orc''"
    and "buffer state = Some (r # rs)"
    and "part state = Some p"
    and "columnar_fails ev w (part_filename a stream_key symbol (p + 1) fmt) (r # rs)"
  shows "flush_buffer ev a state stream_key symbol fmt w =
           Inr (state\<lparr>part := Some (p + 1), buffer := Some []\<rparr>,
                w\<lparr>trace := trace w @ [TableWrite (part_filename a stream_key symbol (p + 1) fmt),
                                        Log (WriteFailed (part_filename a stream_key symbol (p + 1) fmt))]\<rparr>)"
  using assms by (auto simp: flush_buffer_def emit_def Let_def)

theorem flush_failure_loses_batch_witness:
  "flush_buffer columnar_failing_env example_args
      \<lparr>buffer = Some [example_payload], part = Some 0, handle = None, lines = None,
       writer = None, header = None\<rparr>
      ''trades'' ''BTCUSDT'' ''parquet'' init_world =
     Inr (\<lparr>buffer = Some [], part = Some 1, handle = None, lines = None,
           writer = None, header = None\<rparr>,
          \<lparr>writers = [], files = [], tables = [], store = [],
           trace = [TableWrite ''data/trades_btcusdt_1.parquet'',
                    Log (WriteFailed ''data/trades_btcusdt_1.parquet'')]\<rparr>)"
proof -
  have f: "part_filename example_args ''trades'' ''BTCUSDT'' (Suc 0) ''parquet''
             = ''data/trades_btcusdt_1.parquet''"
    by code_simp
  have "columnar_fails columnar_failing_env init_world
          (part_filename example_args ''trades'' ''BTCUSDT'' (0 + 1) ''parquet'') [example_payload]"
    by (simp add: columnar_failing_env_def reliable_env_def)
  from flush_failure_loses_batch [of "''parquet''" _ example_payload "[]" 0, OF _ _ _ this]
  show ?thesis
    by (simp add: f init_world_def)
qed




lemma receive_loop_append:
  assumes "receive_loop loads process_func stream_key symbol a n pre = (acts, n', Exhausted)"
  shows "receive_loop loads process_func stream_key symbol a n (pre @ ms) =
           (case receive_loop loads process_func stream_key symbol a n' ms of
              (acts2, n2, e2) \<Rightarrow> (acts @ acts2, n2, e2))"
  using assms
proof (induction pre arbitrary: n acts)
  case Nil
  then show ?case by (auto split: prod.splits)
next
  case (Cons m pre)
  then show ?case
    by (auto split: option.splits sum.splits prod.splits if_splits)
qed

lemma receive_loop_bad:
  "loads message = None \<Longrightarrow>
     receive_loop loads process_func stream_key symbol a n (message # rest) = ([], n, Raised JSONDecodeError)"
  by simp

text \<open>
  Claim C10. A message that does not decode ends the connection it came on: whatever
  the connection would still have delivered (\<open>rest\<close>) and however it would have ended
  is dropped, the error is logged, the producer sleeps 5 and connects again, with the
  sample count it had. A connection closed with an error and a refused connection are
  handled by the same three steps.
\<close>

theorem decode_failure_reconnects:
  assumes "loads message = None"
    and "receive_loop loads process_func stream_key symbol a n pre = (acts, n', Exhausted)"
  shows "producer_loop loads process_func url stream_key symbol a n
             (Established (pre @ message # rest) ce # cs) =
           (Connect url # PLog Connected # acts
              @ [PLog (ProducerError JSONDecodeError), Sleep 5]
              @ fst (producer_loop loads process_func url stream_key symbol a n' cs),
            snd (producer_loop loads process_func url stream_key symbol a n' cs))
       \<and> producer_loop loads process_func url stream_key symbol a n
             (Established pre ClosedError # cs) =
           (Connect url # PLog Connected # acts
              @ [PLog (ProducerError ConnectionClosed), Sleep 5]
              @ fst (producer_loop loads process_func url stream_key symbol a n' cs),
            snd (producer_loop loads process_func url stream_key symbol a n' cs))
       \<and> producer_loop loads process_func url stream_key symbol a n' (Refused # cs) =
           (Connect url # [PLog (ProducerError ConnectionRefused), Sleep 5]
              @ fst (producer_loop loads process_func url stream_key symbol a n' cs),
            snd (producer_loop loads process_func url stream_key symbol a n' cs))"
proof -
  have "receive_loop loads process_func stream_key symbol a n (pre @ message # rest) =
          (acts, n', Raised JSONDecodeError)"
    using receive_loop_append [OF assms(2)] assms(1) by simp
  then show ?thesis
    using assms(2) by (simp split: prod.splits)
qed

theorem decode_failure_reconnects_witness:
  "fst (producer_loop example_loads (process_trade_payload example_str) ''wss://feed/btcusdt@aggTrade''
          ''trades'' ''BTCUSDT'' example_args 0
          [Established ([''1.0''] @ ''not json'' # [''2.0'', ''3.0'']) ClosedOK, Established [] Cancelled]) =
     [Connect ''wss://feed/btcusdt@aggTrade'', PLog Connected,
      Put (''trades'', ''BTCUSDT'',
           [(''event_time'', JInt 1700000000000), (''price'', JStr ''1.0''),
            (''quantity'', JStr ''0.5''), (''trade_time'', JInt 1700000000001),
            (''is_buyer_maker'', JStr ''True'')]),
      PLog (ProducerError JSONDecodeError), Sleep 5,
      Connect ''wss://feed/btcusdt@aggTrade'', PLog Connected]"
proof -
  have bad: "example_loads ''not json'' = None"
    by (simp add: example_loads_def)
  have pre: "receive_loop example_loads (process_trade_payload example_str) ''trades'' ''BTCUSDT''
               example_args 0 [''1.0''] =
             ([Put (''trades'', ''BTCUSDT'',
                 [(''event_time'', JInt 1700000000000), (''price'', JStr ''1.0''),
                  (''quantity'', JStr ''0.5''), (''trade_time'', JInt 1700000000001),
                  (''is_buyer_maker'', JStr ''True'')])], 0, Exhausted)"
    by (simp add: example_loads_def process_trade_payload_def example_str_def example_args_def
          dict_get_def)
  from decode_failure_reconnects [OF bad pre, of "''wss://feed/btcusdt@aggTrade''"
      "[''2.0'', ''3.0'']" ClosedOK "[Established [] Cancelled]"]
  show ?thesis by simp
qed











lemma ws_expand:
  "s\<lparr>buffer := b\<rparr> = \<lparr>buffer = b, part = part s, handle = handle s, lines = lines s,
                       writer = writer s, header = header s\<rparr>"
  "s\<lparr>part := p\<rparr> = \<lparr>buffer = buffer s, part = p, handle = handle s, lines = lines s,
                     writer = writer s, header = header s\<rparr>"
  "s\<lparr>handle := h\<rparr> = \<lparr>buffer = buffer s, part = part s, handle = h, lines = lines s,
                       writer = writer s, header = header s\<rparr>"
  "s\<lparr>lines := n\<rparr> = \<lparr>buffer = buffer s, part = part s, handle = handle s, lines = n,
                      writer = writer s, header = header s\<rparr>"
  "s\<lparr>writer := f\<rparr> = \<lparr>buffer = buffer s, part = part s, handle = handle s, lines = lines s,
                       writer = f, header = header s\<rparr>"
  "s\<lparr>header := hdr\<rparr> = \<lparr>buffer = buffer s, part = part s, handle = handle s, lines = lines s,
                        writer = writer s, header = hdr\<rparr>"
  by simp_all

lemma file_lines_fields [simp]:
  "file_lines (w\<lparr>trace := t\<rparr>) f = file_lines w f"
  "file_lines (w\<lparr>writers := ws\<rparr>) f = file_lines w f"
  "file_lines (w\<lparr>files := AList.update f ls fs\<rparr>) f = ls"
  by (simp_all add: file_lines_def map_of_update_same)


lemma open_then_append2:
  "append_line f l2 (append_line f l1 (open_append f w)) =
     w\<lparr>files := AList.update f (file_lines w f @ [l1, l2]) (files w), trace := trace w @ [Opened f]\<rparr>"
  by (simp add: append_line_def open_append_def emit_def)



lemma csv_open:
  assumes "handle (state_of w (writer_key_of stream_key symbol ''csv'')) = None"
    and "\<forall>w f. \<not> open_fails ev w f" and "\<forall>w f l. \<not> write_fails ev w f l"
  shows "write_to_file ev a stream_key symbol payload ''csv'' w =
           Inr (w\<lparr>writers := AList.update (writer_key_of stream_key symbol ''csv'')
                    ((state_of w (writer_key_of stream_key symbol ''csv''))
                       \<lparr>header := Some (map fst payload),
                        writer := Some (part_filename a stream_key symbol
                                          (part_of w (writer_key_of stream_key symbol ''csv'') + 1) ''csv''),
                        lines := Some 2,
                        handle := Some (part_filename a stream_key symbol
                                          (part_of w (writer_key_of stream_key symbol ''csv'') + 1) ''csv''),
                        part := Some (part_of w (writer_key_of stream_key symbol ''csv'') + 1)\<rparr>)
                    (writers w),
                  files := AList.update
                    (part_filename a stream_key symbol
                       (part_of w (writer_key_of stream_key symbol ''csv'') + 1) ''csv'')
                    (file_lines w (part_filename a stream_key symbol
                       (part_of w (writer_key_of stream_key symbol ''csv'') + 1) ''csv'')
                     @ [CsvRow (map JStr (map fst payload)),
                        CsvRow (map (dict_get payload) (map fst payload))]) (files w),
                  trace := trace w @ [Opened (part_filename a stream_key symbol
                       (part_of w (writer_key_of stream_key symbol ''csv'') + 1) ''csv'')]\<rparr>)"
  using assms
  by (simp add: write_to_file_def write_to_file_state open_part_def write_line_def count_line_def
        part_of_def Let_def open_then_append2 FILE_ROTATION_LINE_COUNT_def ws_expand numeral_2_eq_2)

lemma csv_append:
  assumes "handle (state_of w (writer_key_of stream_key symbol ''csv'')) = Some h"
    and "writer (state_of w (writer_key_of stream_key symbol ''csv'')) = Some f"
    and "header (state_of w (writer_key_of stream_key symbol ''csv'')) = Some hdr"
    and "lines (state_of w (writer_key_of stream_key symbol ''csv'')) = Some n"
    and "\<forall>w f l. \<not> write_fails ev w f l"
  shows "write_to_file ev a stream_key symbol payload ''csv'' w =
           Inr (if n + 1 \<ge> FILE_ROTATION_LINE_COUNT
                then w\<lparr>writers := AList.update (writer_key_of stream_key symbol ''csv'')
                          ((state_of w (writer_key_of stream_key symbol ''csv''))
                             \<lparr>writer := None, lines := Some (n + 1), handle := None\<rparr>) (writers w),
                       files := AList.update f (file_lines w f @ [CsvRow (map (dict_get payload) hdr)]) (files w),
                       trace := trace w @ [Log (Rotated (writer_key_of stream_key symbol ''csv''))]\<rparr>
                else w\<lparr>writers := AList.update (writer_key_of stream_key symbol ''csv'')
                          ((state_of w (writer_key_of stream_key symbol ''csv''))
                             \<lparr>lines := Some (n + 1)\<rparr>) (writers w),
                       files := AList.update f (file_lines w f @ [CsvRow (map (dict_get payload) hdr)]) (files w)\<rparr>)"
  using assms
  by (simp add: write_to_file_def write_to_file_state open_part_def write_line_def count_line_def
        Let_def append_line_def emit_def ws_expand)

lemma state_present:
  "handle (state_of w k) = Some h \<Longrightarrow> map_of (writers w) k = Some (state_of w k)"
  by (auto simp: state_of_def empty_state_def split: option.splits)

lemma file_lines_Some: "map_of (files w) f = Some X \<Longrightarrow> file_lines w f = X"
  by (simp add: file_lines_def)


lemma csv_records:
  assumes nf: "\<forall>w f l. \<not> write_fails ev w f l"
  shows "handle (state_of w (writer_key_of stream_key symbol ''csv'')) = Some h \<Longrightarrow>
         writer (state_of w (writer_key_of stream_key symbol ''csv'')) = Some f \<Longrightarrow>
         header (state_of w (writer_key_of stream_key symbol ''csv'')) = Some hdr \<Longrightarrow>
         lines (state_of w (writer_key_of stream_key symbol ''csv'')) = Some n \<Longrightarrow>
         map_of (files w) f = Some X \<Longrightarrow>
         n + length ps < FILE_ROTATION_LINE_COUNT \<Longrightarrow>
         write_records ev a stream_key symbol ''csv'' ps w =
           Inr (w\<lparr>writers := AList.update (writer_key_of stream_key symbol ''csv'')
                    ((state_of w (writer_key_of stream_key symbol ''csv''))
                       \<lparr>lines := Some (n + length ps)\<rparr>) (writers w),
                  files := AList.update f (X @ map (\<lambda>p. CsvRow (map (dict_get p) hdr)) ps) (files w)\<rparr>)"
proof (induction ps arbitrary: w n X)
  case Nil
  let ?k = "writer_key_of stream_key symbol ''csv''"
  have "AList.update ?k (state_of w ?k) (writers w) = writers w"
    using state_present [OF Nil(1)] by (rule AList.update_triv)
  moreover have "(state_of w ?k)\<lparr>lines := Some n\<rparr> = state_of w ?k"
    using Nil(4) by (cases "state_of w ?k") simp
  moreover have "AList.update f X (files w) = files w"
    using Nil(5) by (rule AList.update_triv)
  ultimately show ?case by simp
next
  case (Cons r ps)
  let ?k = "writer_key_of stream_key symbol ''csv''"
  let ?w1 = "w\<lparr>writers := AList.update ?k ((state_of w ?k)\<lparr>lines := Some (n + 1)\<rparr>) (writers w),
               files := AList.update f (X @ [CsvRow (map (dict_get r) hdr)]) (files w)\<rparr>"
  have step: "write_to_file ev a stream_key symbol r ''csv'' w = Inr ?w1"
    using csv_append [OF Cons.prems(1,2,3,4) nf, of a r] Cons.prems(5,6)
    by (simp add: file_lines_Some)
  have "write_records ev a stream_key symbol ''csv'' ps ?w1 =
          Inr (?w1\<lparr>writers := AList.update ?k ((state_of ?w1 ?k)\<lparr>lines := Some ((n + 1) + length ps)\<rparr>)
                                   (writers ?w1),
                    files := AList.update f ((X @ [CsvRow (map (dict_get r) hdr)])
                                               @ map (\<lambda>p. CsvRow (map (dict_get p) hdr)) ps) (files ?w1)\<rparr>)"
    using Cons.prems by (intro Cons.IH) (simp_all add: state_of_def map_of_update_same)
  then show ?case
    by (simp add: step)
qed

lemma state_of_init [simp]: "state_of init_world k = empty_state"
  by (simp add: state_of_def init_world_def)

lemma part_of_init [simp]: "part_of init_world k = 0"
  by (simp add: part_of_def empty_state_def)



lemma csv_full_part:
  assumes no: "\<forall>w f. \<not> open_fails ev w f" and nw: "\<forall>w f l. \<not> write_fails ev w f l"
    and len: "length (r0 # qs) + 1 = FILE_ROTATION_LINE_COUNT"
  shows "write_records ev a stream_key symbol ''csv'' (r0 # qs) init_world =
           Inr \<lparr>writers = [(writer_key_of stream_key symbol ''csv'',
                             \<lparr>buffer = None, part = Some 1, handle = None, lines = Some 100000,
                              writer = None, header = Some (map fst r0)\<rparr>)],
                files = [(part_filename a stream_key symbol 1 ''csv'',
                          CsvRow (map JStr (map fst r0))
                            # map (\<lambda>p. CsvRow (map (dict_get p) (map fst r0))) (r0 # qs))],
                tables = [], store = [],
                trace = [Opened (part_filename a stream_key symbol 1 ''csv''),
                         Log (Rotated (writer_key_of stream_key symbol ''csv''))]\<rparr>"
proof -
  let ?k = "writer_key_of stream_key symbol ''csv''"
  let ?f = "part_filename a stream_key symbol 1 ''csv''"
  let ?hdr = "map fst r0"
  let ?row = "\<lambda>p. CsvRow (map (dict_get p) ?hdr)"
  from len have lq: "length qs = 99998"
    by (simp add: FILE_ROTATION_LINE_COUNT_def)
  from lq obtain mid rl where qs: "qs = mid @ [rl]" and lm: "length mid = 99997"
    by (cases qs rule: rev_cases) auto
  let ?s1 = "\<lparr>buffer = None, part = Some 1, handle = Some ?f, lines = Some 2,
              writer = Some ?f, header = Some ?hdr\<rparr>"
  let ?w1 = "\<lparr>writers = [(?k, ?s1)], files = [(?f, [CsvRow (map JStr ?hdr), ?row r0])],
              tables = [], store = [], trace = [Opened ?f]\<rparr>"
  let ?w2 = "\<lparr>writers = [(?k, ?s1\<lparr>lines := Some 99999\<rparr>)],
              files = [(?f, CsvRow (map JStr ?hdr) # ?row r0 # map ?row mid)], tables = [], store = [],
              trace = [Opened ?f]\<rparr>"
  have 1: "write_to_file ev a stream_key symbol r0 ''csv'' init_world = Inr ?w1"
    using csv_open [of init_world stream_key symbol ev a r0] no nw
    by (simp add: empty_state_def) (simp add: init_world_def file_lines_def)
  have 2: "write_records ev a stream_key symbol ''csv'' mid ?w1 = Inr ?w2"
    using csv_records [OF nw, of ?w1 stream_key symbol ?f ?f ?hdr 2
        "[CsvRow (map JStr ?hdr), ?row r0]" mid a] lm
    by (simp add: state_of_def FILE_ROTATION_LINE_COUNT_def)
  have 3: "write_to_file ev a stream_key symbol rl ''csv'' ?w2 =
             Inr \<lparr>writers = [(?k, ?s1\<lparr>writer := None, lines := Some 100000, handle := None\<rparr>)],
                  files = [(?f, CsvRow (map JStr ?hdr) # ?row r0 # map ?row mid @ [?row rl])],
                  tables = [], store = [],
                  trace = [Opened ?f, Log (Rotated ?k)]\<rparr>"
    using csv_append [of ?w2 stream_key symbol ?f ?f ?hdr 99999 ev a rl] nw
    by (simp add: state_of_def FILE_ROTATION_LINE_COUNT_def file_lines_def)
  have "write_records ev a stream_key symbol ''csv'' (r0 # qs) init_world
          = write_records ev a stream_key symbol ''csv'' (mid @ [rl]) ?w1"
    by (simp add: qs 1)
  also have "\<dots> = write_records ev a stream_key symbol ''csv'' [rl] ?w2"
    by (simp only: write_records_append 2 sum.case)
  also have "\<dots> = write_to_file ev a stream_key symbol rl ''csv'' ?w2"
    by (rule write_records_single)
  also note 3
  finally show ?thesis
    by (simp add: qs)
qed

lemma csv_after_rotation:
  assumes no: "\<forall>w f. \<not> open_fails ev w f" and nw: "\<forall>w f l. \<not> write_fails ev w f l"
  shows "write_to_file ev a stream_key symbol r ''csv''
           \<lparr>writers = [(writer_key_of stream_key symbol ''csv'',
                        \<lparr>buffer = None, part = Some 1, handle = None, lines = Some 100000,
                         writer = None, header = Some hdr\<rparr>)],
            files = [(part_filename a stream_key symbol 1 ''csv'', ls)],
            tables = [], store = [], trace = t\<rparr> =
         Inr \<lparr>writers = [(writer_key_of stream_key symbol ''csv'',
                        \<lparr>buffer = None, part = Some 2,
                         handle = Some (part_filename a stream_key symbol 2 ''csv''),
                         lines = Some 2,
                         writer = Some (part_filename a stream_key symbol 2 ''csv''),
                         header = Some (map fst r)\<rparr>)],
              files = [(part_filename a stream_key symbol 1 ''csv'', ls),
                       (part_filename a stream_key symbol 2 ''csv'',
                        [CsvRow (map JStr (map fst r)), CsvRow (map (dict_get r) (map fst r))])],
              tables = [], store = [],
              trace = t @ [Opened (part_filename a stream_key symbol 2 ''csv'')]\<rparr>"
proof -
  let ?k = "writer_key_of stream_key symbol ''csv''"
  let ?W = "\<lparr>writers = [(?k, \<lparr>buffer = None, part = Some 1, handle = None, lines = Some 100000,
                         writer = None, header = Some hdr\<rparr>)],
            files = [(part_filename a stream_key symbol 1 ''csv'', ls)],
            tables = [], store = [], trace = t\<rparr>"
  have ne: "part_filename a stream_key symbol 1 ''csv'' \<noteq> part_filename a stream_key symbol 2 ''csv''"
    by (simp add: part_filename_inj)
  have p: "part_of ?W ?k + 1 = 2" by (simp add: part_of_def state_of_def)
  show ?thesis
    using csv_open [of ?W stream_key symbol ev a r] no nw ne
    unfolding p
    by (simp add: state_of_def file_lines_def)
qed

lemma reliable_open: "\<forall>w f. \<not> open_fails reliable_env w f"
  by (simp add: reliable_env_def)

lemma reliable_write: "\<forall>w f l. \<not> write_fails reliable_env w f l"
  by (simp add: reliable_env_def)

lemma replicate_99999: "replicate 99999 x = x # replicate 99998 x"
proof -
  have a: "replicate (Suc 99998) x = x # replicate 99998 x" by (rule replicate.simps)
  have b: "Suc 99998 = (99999::nat)" by simp
  from a show ?thesis unfolding b .
qed


lemma example_names:
  "part_filename example_args ''trades'' ''BTCUSDT'' 1 ''csv'' = ''data/trades_btcusdt_1.csv''"
  "part_filename example_args ''trades'' ''BTCUSDT'' 2 ''csv'' = ''data/trades_btcusdt_2.csv''"
  "part_filename example_args ''trades'' ''BTCUSDT'' 1 ''jsonl'' = ''data/trades_btcusdt_1.jsonl''"
  "part_filename example_args ''trades'' ''BTCUSDT'' 2 ''jsonl'' = ''data/trades_btcusdt_2.jsonl''"
  "writer_key_of ''trades'' ''BTCUSDT'' ''csv'' = ''trades_btcusdt_csv''"
  "writer_key_of ''trades'' ''BTCUSDT'' ''json'' = ''trades_btcusdt_json''"
  by code_simp+

lemma example_rows:
  "map fst example_payload = [''event_time'', ''price'']"
  "map (dict_get example_payload) [''event_time'', ''price''] = [JInt 1, JStr ''42.5'']"
  "map fst other_payload = [''price'', ''quantity'']"
  "map (dict_get other_payload) [''price'', ''quantity''] = [JStr ''43.0'', JStr ''7'']"
  by (simp_all add: example_payload_def other_payload_def dict_get_def)

lemma example_names_Suc:
  "part_filename example_args ''trades'' ''BTCUSDT'' (Suc 0) ''csv'' = ''data/trades_btcusdt_1.csv''"
  "part_filename example_args ''trades'' ''BTCUSDT'' (Suc 0) ''jsonl'' = ''data/trades_btcusdt_1.jsonl''"
  by code_simp+

lemma example_gets:
  "dict_get example_payload ''event_time'' = JInt 1"
  "dict_get example_payload ''price'' = JStr ''42.5''"
  "dict_get other_payload ''event_time'' = JNull"
  "dict_get other_payload ''price'' = JStr ''43.0''"
  "dict_get other_payload ''quantity'' = JStr ''7''"
  by (simp_all add: example_payload_def other_payload_def dict_get_def)




text \<open>
  Claim C6, amended. A delimited-text writer takes its header at every opening of a
  part, from the record that opens it: the first record of the WriterState for part 1,
  the first record after each rotation for a later part. While a part is open the
  header stays as it is, and every record is written positionally against it.
\<close>

theorem csv_header_per_part:
  assumes "\<forall>w f. \<not> open_fails ev w f" and "\<forall>w f l. \<not> write_fails ev w f l"
  shows "(handle (state_of w (writer_key_of stream_key symbol ''csv'')) = None \<longrightarrow>
            (\<exists>w'. write_to_file ev a stream_key symbol payload ''csv'' w = Inr w'
                \<and> header (state_of w' (writer_key_of stream_key symbol ''csv'')) = Some (map fst payload)
                \<and> file_lines w' (part_filename a stream_key symbol
                                    (part_of w (writer_key_of stream_key symbol ''csv'') + 1) ''csv'')
                    = file_lines w (part_filename a stream_key symbol
                                      (part_of w (writer_key_of stream_key symbol ''csv'') + 1) ''csv'')
                      @ [CsvRow (map JStr (map fst payload)),
                         CsvRow (map (dict_get payload) (map fst payload))]))
       \<and> (handle (state_of w (writer_key_of stream_key symbol ''csv'')) = Some h
          \<and> writer (state_of w (writer_key_of stream_key symbol ''csv'')) = Some f
          \<and> header (state_of w (writer_key_of stream_key symbol ''csv'')) = Some hdr
          \<and> lines (state_of w (writer_key_of stream_key symbol ''csv'')) = Some n \<longrightarrow>
            (\<exists>w'. write_to_file ev a stream_key symbol payload ''csv'' w = Inr w'
                \<and> header (state_of w' (writer_key_of stream_key symbol ''csv'')) = Some hdr
                \<and> file_lines w' f = file_lines w f @ [CsvRow (map (dict_get payload) hdr)]))"
proof (intro conjI impI)
  assume "handle (state_of w (writer_key_of stream_key symbol ''csv'')) = None"
  from csv_open [OF this assms, of a payload]
  show "\<exists>w'. write_to_file ev a stream_key symbol payload ''csv'' w = Inr w'
                \<and> header (state_of w' (writer_key_of stream_key symbol ''csv'')) = Some (map fst payload)
                \<and> file_lines w' (part_filename a stream_key symbol
                                    (part_of w (writer_key_of stream_key symbol ''csv'') + 1) ''csv'')
                    = file_lines w (part_filename a stream_key symbol
                                      (part_of w (writer_key_of stream_key symbol ''csv'') + 1) ''csv'')
                      @ [CsvRow (map JStr (map fst payload)),
                         CsvRow (map (dict_get payload) (map fst payload))]"
    by (simp add: state_of_def map_of_update_same file_lines_def)
next
  assume h: "handle (state_of w (writer_key_of stream_key symbol ''csv'')) = Some h
          \<and> writer (state_of w (writer_key_of stream_key symbol ''csv'')) = Some f
          \<and> header (state_of w (writer_key_of stream_key symbol ''csv'')) = Some hdr
          \<and> lines (state_of w (writer_key_of stream_key symbol ''csv'')) = Some n"
  from csv_append [of w stream_key symbol h f hdr n ev a payload] h assms(2)
  show "\<exists>w'. write_to_file ev a stream_key symbol payload ''csv'' w = Inr w'
                \<and> header (state_of w' (writer_key_of stream_key symbol ''csv'')) = Some hdr
                \<and> file_lines w' f = file_lines w f @ [CsvRow (map (dict_get payload) hdr)]"
    by (auto simp: state_of_def map_of_update_same file_lines_def)
qed

theorem csv_header_per_part_witness:
  "(\<exists>w'. write_to_file reliable_env example_args ''trades'' ''BTCUSDT'' example_payload ''csv''
            init_world = Inr w'
        \<and> header (state_of w' ''trades_btcusdt_csv'') = Some [''event_time'', ''price'']
        \<and> file_lines w' ''data/trades_btcusdt_1.csv''
            = [CsvRow [JStr ''event_time'', JStr ''price''], CsvRow [JInt 1, JStr ''42.5'']])
   \<and> (\<exists>w'. write_to_file reliable_env example_args ''trades'' ''BTCUSDT'' other_payload ''csv''
            \<lparr>writers = [(''trades_btcusdt_csv'',
                         \<lparr>buffer = None, part = Some 1,
                          handle = Some ''data/trades_btcusdt_1.csv'', lines = Some 2,
                          writer = Some ''data/trades_btcusdt_1.csv'',
                          header = Some [''event_time'', ''price'']\<rparr>)],
             files = [(''data/trades_btcusdt_1.csv'',
                       [CsvRow [JStr ''event_time'', JStr ''price''], CsvRow [JInt 1, JStr ''42.5'']])],
             tables = [], store = [], trace = [Opened ''data/trades_btcusdt_1.csv'']\<rparr> = Inr w'
        \<and> header (state_of w' ''trades_btcusdt_csv'') = Some [''event_time'', ''price'']
        \<and> file_lines w' ''data/trades_btcusdt_1.csv''
            = [CsvRow [JStr ''event_time'', JStr ''price''], CsvRow [JInt 1, JStr ''42.5''],
               CsvRow [JNull, JStr ''43.0'']])"
proof -
  let ?w1 = "\<lparr>writers = [(''trades_btcusdt_csv'',
                         \<lparr>buffer = None, part = Some 1,
                          handle = Some ''data/trades_btcusdt_1.csv'', lines = Some 2,
                          writer = Some ''data/trades_btcusdt_1.csv'',
                          header = Some [''event_time'', ''price'']\<rparr>)],
             files = [(''data/trades_btcusdt_1.csv'',
                       [CsvRow [JStr ''event_time'', JStr ''price''], CsvRow [JInt 1, JStr ''42.5'']])],
             tables = [], store = [], trace = [Opened ''data/trades_btcusdt_1.csv'']\<rparr>"
  note a = csv_header_per_part [OF reliable_open reliable_write,
      where w = init_world and stream_key = "''trades''" and symbol = "''BTCUSDT''"
        and a = example_args and payload = example_payload]
  note b = csv_header_per_part [OF reliable_open reliable_write,
      where w = ?w1 and stream_key = "''trades''" and symbol = "''BTCUSDT''"
        and a = example_args and payload = other_payload
        and h = "''data/trades_btcusdt_1.csv''" and f = "''data/trades_btcusdt_1.csv''"
        and hdr = "[''event_time'', ''price'']" and n = 2]
  have 1: "\<exists>w'. write_to_file reliable_env example_args ''trades'' ''BTCUSDT'' example_payload ''csv''
            init_world = Inr w'
        \<and> header (state_of w' ''trades_btcusdt_csv'') = Some [''event_time'', ''price'']
        \<and> file_lines w' ''data/trades_btcusdt_1.csv''
            = [CsvRow [JStr ''event_time'', JStr ''price''], CsvRow [JInt 1, JStr ''42.5'']]"
    using a
    by (simp add: example_names example_names_Suc example_rows example_gets empty_state_def)
       (simp add: file_lines_def init_world_def)
  have 2: "\<exists>w'. write_to_file reliable_env example_args ''trades'' ''BTCUSDT'' other_payload ''csv''
            ?w1 = Inr w'
        \<and> header (state_of w' ''trades_btcusdt_csv'') = Some [''event_time'', ''price'']
        \<and> file_lines w' ''data/trades_btcusdt_1.csv''
            = [CsvRow [JStr ''event_time'', JStr ''price''], CsvRow [JInt 1, JStr ''42.5''],
               CsvRow [JNull, JStr ''43.0'']]"
    using b
    by (simp add: example_names example_gets state_of_def file_lines_def)
  from 1 2 show ?thesis by blast
qed

text \<open>
  The claim as stated fails: after a rotation the header is taken again, from the
  record that opens the new part. Here the 100,000th record has other fields than the
  first; part 2 gets that record's own field names as its header and its row is read
  off them, not off the header of the first record.
\<close>

theorem csv_header_recaptured_counterexample:
  "map_sum id files (write_records reliable_env example_args ''trades'' ''BTCUSDT'' ''csv''
                       (replicate 99999 example_payload @ [other_payload]) init_world) =
     Inr [(''data/trades_btcusdt_1.csv'',
           CsvRow [JStr ''event_time'', JStr ''price'']
             # replicate 99999 (CsvRow [JInt 1, JStr ''42.5''])),
          (''data/trades_btcusdt_2.csv'',
           [CsvRow [JStr ''price'', JStr ''quantity''], CsvRow [JStr ''43.0'', JStr ''7'']])]
   \<and> map_sum id writers (write_records reliable_env example_args ''trades'' ''BTCUSDT'' ''csv''
                       (replicate 99999 example_payload @ [other_payload]) init_world) =
     Inr [(''trades_btcusdt_csv'',
           \<lparr>buffer = None, part = Some 2, handle = Some ''data/trades_btcusdt_2.csv'',
            lines = Some 2, writer = Some ''data/trades_btcusdt_2.csv'',
            header = Some [''price'', ''quantity'']\<rparr>)]"
proof -
  let ?full = "example_payload # replicate 99998 example_payload"
  have l: "length ?full + 1 = FILE_ROTATION_LINE_COUNT"
    by (simp add: FILE_ROTATION_LINE_COUNT_def)
  note full = csv_full_part [OF reliable_open reliable_write l, of example_args "''trades''" "''BTCUSDT''"]
  have "write_records reliable_env example_args ''trades'' ''BTCUSDT'' ''csv''
          (?full @ [other_payload]) init_world =
        (case write_records reliable_env example_args ''trades'' ''BTCUSDT'' ''csv'' ?full init_world of
           Inl e \<Rightarrow> Inl e
         | Inr w1 \<Rightarrow> write_records reliable_env example_args ''trades'' ''BTCUSDT'' ''csv''
                       [other_payload] w1)"
    by (rule write_records_append)
  also have "\<dots> = write_to_file reliable_env example_args ''trades'' ''BTCUSDT'' other_payload ''csv''
           \<lparr>writers = [(writer_key_of ''trades'' ''BTCUSDT'' ''csv'',
                        \<lparr>buffer = None, part = Some 1, handle = None, lines = Some 100000,
                         writer = None, header = Some (map fst example_payload)\<rparr>)],
            files = [(part_filename example_args ''trades'' ''BTCUSDT'' 1 ''csv'',
                      CsvRow (map JStr (map fst example_payload))
                        # map (\<lambda>p. CsvRow (map (dict_get p) (map fst example_payload))) ?full)],
            tables = [], store = [],
            trace = [Opened (part_filename example_args ''trades'' ''BTCUSDT'' 1 ''csv''),
                     Log (Rotated (writer_key_of ''trades'' ''BTCUSDT'' ''csv''))]\<rparr>"
    by (simp only: full sum.case write_records_single)
  also note csv_after_rotation [OF reliable_open reliable_write]
  finally have e: "write_records reliable_env example_args ''trades'' ''BTCUSDT'' ''csv''
          (?full @ [other_payload]) init_world =
        Inr \<lparr>writers = [(writer_key_of ''trades'' ''BTCUSDT'' ''csv'',
                        \<lparr>buffer = None, part = Some 2,
                         handle = Some (part_filename example_args ''trades'' ''BTCUSDT'' 2 ''csv''),
                         lines = Some 2,
                         writer = Some (part_filename example_args ''trades'' ''BTCUSDT'' 2 ''csv''),
                         header = Some (map fst other_payload)\<rparr>)],
              files = [(part_filename example_args ''trades'' ''BTCUSDT'' 1 ''csv'',
                        CsvRow (map JStr (map fst example_payload))
                          # map (\<lambda>p. CsvRow (map (dict_get p) (map fst example_payload))) ?full),
                       (part_filename example_args ''trades'' ''BTCUSDT'' 2 ''csv'',
                        [CsvRow (map JStr (map fst other_payload)),
                         CsvRow (map (dict_get other_payload) (map fst other_payload))])],
              tables = [], store = [],
              trace = [Opened (part_filename example_args ''trades'' ''BTCUSDT'' 1 ''csv''),
                       Log (Rotated (writer_key_of ''trades'' ''BTCUSDT'' ''csv''))]
                      @ [Opened (part_filename example_args ''trades'' ''BTCUSDT'' 2 ''csv'')]\<rparr>" .
  show ?thesis
    unfolding replicate_99999 e
    by (simp add: example_names example_names_Suc example_rows example_gets replicate_99999)
qed

lemma emit_fields [simp]:
  "writers (emit e w) = writers w" "files (emit e w) = files w" "tables (emit e w) = tables w"
  "store (emit e w) = store w" "trace (emit e w) = trace w @ [e]"
  by (simp_all add: emit_def)

lemma world_expand:
  "w\<lparr>writers := ws\<rparr> = \<lparr>writers = ws, files = files w, tables = tables w, store = store w,
                         trace = trace w\<rparr>"
  "w\<lparr>files := fs\<rparr> = \<lparr>writers = writers w, files = fs, tables = tables w, store = store w,
                       trace = trace w\<rparr>"
  "w\<lparr>tables := tb\<rparr> = \<lparr>writers = writers w, files = files w, tables = tb, store = store w,
                        trace = trace w\<rparr>"
  "w\<lparr>store := st\<rparr> = \<lparr>writers = writers w, files = files w, tables = tables w, store = st,
                       trace = trace w\<rparr>"
  "w\<lparr>trace := tr\<rparr> = \<lparr>writers = writers w, files = files w, tables = tables w, store = store w,
                       trace = tr\<rparr>"
  by simp_all









end
